theory Spec2Isabelle
  imports Complex_Main
begin

section \<open>JavaScript values\<close>

text \<open>
  The tool handlers of \<^verbatim>\<open>server.ts\<close> work on whatever \<^verbatim>\<open>response.json()\<close> hands them;
  the TypeScript interfaces are erased at run time. A payload is therefore a JavaScript
  value: \<open>undefined\<close>, \<open>null\<close>, a boolean, a number, a string, an array or an object.
  An object is the list of its own properties in enumeration order (keys distinct).
  A number is the rational value of the double (a JSON payload has neither NaN nor an
  infinity). A string is the list of its code units, each a \<open>char\<close>: the strings of the
  model are those whose code units are below 256.
\<close>

datatype js =
    JUndefined
  | JNull
  | JBool bool
  | JNum rat
  | JStr string
  | JArr "js list"
  | JObj "(string \<times> js) list"

datatype js_error =
    TypeError
  | HttpError nat
  | NetworkError
  | DecodeError
  | CredentialError

text \<open>Sequencing of steps that may throw: the first throw ends the sequence.\<close>

definition bindE :: "'e + 'a \<Rightarrow> ('a \<Rightarrow> 'e + 'b) \<Rightarrow> 'e + 'b" where
  "bindE m f = (case m of Inl e \<Rightarrow> Inl e | Inr x \<Rightarrow> f x)"

fun sequenceE :: "('e + 'a) list \<Rightarrow> 'e + 'a list" where
  "sequenceE [] = Inr []"
| "sequenceE (m # ms) =
     (case m of
        Inl e \<Rightarrow> Inl e
      | Inr y \<Rightarrow> (case sequenceE ms of Inl e \<Rightarrow> Inl e | Inr ys \<Rightarrow> Inr (y # ys)))"

definition mapE :: "('a \<Rightarrow> 'e + 'b) \<Rightarrow> 'a list \<Rightarrow> 'e + 'b list" where
  "mapE f xs = sequenceE (map f xs)"

text \<open>\<^verbatim>\<open>!v\<close> is \<open>\<not> truthy v\<close>, and \<^verbatim>\<open>a || b\<close> is \<open>or_else a b\<close>.\<close>

fun truthy :: "js \<Rightarrow> bool" where
  "truthy JUndefined = False"
| "truthy JNull = False"
| "truthy (JBool b) = b"
| "truthy (JNum r) = (r \<noteq> 0)"
| "truthy (JStr s) = (s \<noteq> [])"
| "truthy (JArr xs) = True"
| "truthy (JObj ps) = True"

definition or_else :: "js \<Rightarrow> js \<Rightarrow> js" where
  "or_else a b = (if truthy a then a else b)"

text \<open>
  \<^verbatim>\<open>v.k\<close>: a TypeError on \<open>undefined\<close> and \<open>null\<close>; on an object the own property, else
  \<open>undefined\<close>; arrays and strings have a \<open>length\<close>. None of the keys the program reads
  is inherited from a prototype, apart from \<open>map\<close>, which \<open>array_map\<close> models.
\<close>

definition own_prop :: "(string \<times> js) list \<Rightarrow> string \<Rightarrow> js" where
  "own_prop ps k = (case map_of ps k of None \<Rightarrow> JUndefined | Some v \<Rightarrow> v)"

fun get_prop :: "js \<Rightarrow> string \<Rightarrow> js_error + js" where
  "get_prop JUndefined k = Inl TypeError"
| "get_prop JNull k = Inl TypeError"
| "get_prop (JObj ps) k = Inr (own_prop ps k)"
| "get_prop (JArr xs) k = Inr (if k = ''length'' then JNum (of_nat (length xs)) else JUndefined)"
| "get_prop (JStr s) k = Inr (if k = ''length'' then JNum (of_nat (length s)) else JUndefined)"
| "get_prop (JBool b) k = Inr JUndefined"
| "get_prop (JNum r) k = Inr JUndefined"

text \<open>\<^verbatim>\<open>v?.k\<close>\<close>

definition optional_get :: "js \<Rightarrow> string \<Rightarrow> js_error + js" where
  "optional_get v k = (if v = JUndefined \<or> v = JNull then Inr JUndefined else get_prop v k)"

text \<open>
  \<^verbatim>\<open>v.map(f)\<close>: only an array has the method; on any other value \<^verbatim>\<open>v.map\<close> is not a
  function (a JSON object may own a \<open>map\<close> property, never a callable one) and the call
  throws a TypeError.
\<close>

fun array_map :: "(js \<Rightarrow> js_error + 'a) \<Rightarrow> js \<Rightarrow> js_error + 'a list" where
  "array_map f (JArr xs) = mapE f xs"
| "array_map f v = Inl TypeError"

text \<open>\<^verbatim>\<open>xs.join(sep)\<close> on an array of strings.\<close>

fun join :: "string \<Rightarrow> string list \<Rightarrow> string" where
  "join sep [] = []"
| "join sep [x] = x"
| "join sep (x # y # ys) = x @ sep @ join sep (y # ys)"

subsection \<open>Number and value to string\<close>

fun digits :: "nat \<Rightarrow> string" where
  "digits n =
     (if n < 10 then [''0123456789'' ! n]
      else digits (n div 10) @ [''0123456789'' ! (n mod 10)])"

declare digits.simps [simp del]

definition int_str :: "int \<Rightarrow> string" where
  "int_str i = (if i < 0 then CHR ''-'' # digits (nat (- i)) else digits (nat i))"

text \<open>
  \<^verbatim>\<open>Number.prototype.toString\<close>: an integer that a double holds exactly (up to \<open>2^53\<close> in
  magnitude) prints as its decimal digits. The digits of any other number depend on its
  binary floating-point representation; they are the parameter \<open>fmt\<close>.
\<close>

definition number_to_string :: "(rat \<Rightarrow> string) \<Rightarrow> rat \<Rightarrow> string" where
  "number_to_string fmt r =
     (if r = of_int \<lfloor>r\<rfloor> \<and> \<bar>r\<bar> \<le> 9007199254740992 then int_str \<lfloor>r\<rfloor> else fmt r)"

text \<open>
  The string a template literal \<^verbatim>\<open>${v}\<close> inserts, and the string \<^verbatim>\<open>fetch\<close> makes of its
  argument. An object prints through the \<open>toString\<close> it inherits; one that owns a
  \<open>toString\<close> property (which in a JSON payload is no function) has no string, and the
  conversion throws a TypeError. An array prints its elements, with nothing for \<open>null\<close>
  and \<open>undefined\<close>.
\<close>

fun js_to_string :: "(rat \<Rightarrow> string) \<Rightarrow> js \<Rightarrow> js_error + string" where
  "js_to_string fmt JUndefined = Inr ''undefined''"
| "js_to_string fmt JNull = Inr ''null''"
| "js_to_string fmt (JBool b) = Inr (if b then ''true'' else ''false'')"
| "js_to_string fmt (JNum r) = Inr (number_to_string fmt r)"
| "js_to_string fmt (JStr s) = Inr s"
| "js_to_string fmt (JArr xs) =
     bindE (sequenceE (map (\<lambda>x. if x = JUndefined \<or> x = JNull then Inr []
                                else js_to_string fmt x) xs))
       (\<lambda>ss. Inr (join '','' ss))"
| "js_to_string fmt (JObj ps) =
     (if map_of ps ''toString'' = None then Inr ''[object Object]'' else Inl TypeError)"

text \<open>
  \<^verbatim>\<open>${v || "dflt"}\<close>, and the same for a property of an object with the properties
  \<open>ps\<close>: \<^verbatim>\<open>${obj.k || "dflt"}\<close>.
\<close>

definition tmpl_or :: "(rat \<Rightarrow> string) \<Rightarrow> js \<Rightarrow> string \<Rightarrow> js_error + string" where
  "tmpl_or fmt v dflt = js_to_string fmt (or_else v (JStr dflt))"

definition slot ::
  "(rat \<Rightarrow> string) \<Rightarrow> (string \<times> js) list \<Rightarrow> string \<Rightarrow> string \<Rightarrow> js_error + string" where
  "slot fmt ps k dflt = tmpl_or fmt (own_prop ps k) dflt"

text \<open>
  \<^verbatim>\<open>s.toUpperCase()\<close>: on a string of ASCII characters, each lower-case letter becomes
  its upper-case one. The mapping of the other strings (it may change their length) is
  the parameter \<open>upper\<close>.
\<close>

definition upper_char :: "char \<Rightarrow> char" where
  "upper_char c =
     (case map_of (zip ''abcdefghijklmnopqrstuvwxyz'' ''ABCDEFGHIJKLMNOPQRSTUVWXYZ'') c of
        None \<Rightarrow> c
      | Some u \<Rightarrow> u)"

definition toUpperCase :: "(string \<Rightarrow> string) \<Rightarrow> string \<Rightarrow> string" where
  "toUpperCase upper s =
     (if list_all (\<lambda>c. of_char c < (128::nat)) s then map upper_char s else upper s)"

subsection \<open>JSON.stringify\<close>

definition hex_digit :: "nat \<Rightarrow> char" where
  "hex_digit d = ''0123456789abcdef'' ! d"

definition json_escape :: "char \<Rightarrow> string" where
  "json_escape c =
     (if c = CHR 0x22 then [CHR 0x5C, CHR 0x22]
      else if c = CHR 0x5C then [CHR 0x5C, CHR 0x5C]
      else if c = CHR 0x08 then [CHR 0x5C, CHR ''b'']
      else if c = CHR 0x09 then [CHR 0x5C, CHR ''t'']
      else if c = CHR 0x0A then [CHR 0x5C, CHR ''n'']
      else if c = CHR 0x0C then [CHR 0x5C, CHR ''f'']
      else if c = CHR 0x0D then [CHR 0x5C, CHR ''r'']
      else if of_char c < (32::nat)
        then [CHR 0x5C, CHR ''u'', CHR ''0'', CHR ''0'',
              hex_digit (of_char c div 16), hex_digit (of_char c mod 16)]
      else [c])"

definition json_quote :: "string \<Rightarrow> string" where
  "json_quote s = CHR 0x22 # concat (map json_escape s) @ [CHR 0x22]"

text \<open>A string that \<open>json_quote\<close> only puts between quotes: no character of it is escaped.\<close>

definition plain :: "string \<Rightarrow> bool" where
  "plain s = (concat (map json_escape s) = s)"

text \<open>
  \<open>serialize fmt gap ind v\<close> is the text of \<open>v\<close> at indentation \<open>ind\<close>, or \<open>None\<close> where
  \<^verbatim>\<open>JSON.stringify\<close> yields \<open>undefined\<close>. A property whose value is \<open>undefined\<close> is left
  out of an object and printed as \<open>null\<close> in an array.
\<close>

fun serialize :: "(rat \<Rightarrow> string) \<Rightarrow> string \<Rightarrow> string \<Rightarrow> js \<Rightarrow> string option" where
  "serialize fmt gap ind JUndefined = None"
| "serialize fmt gap ind JNull = Some ''null''"
| "serialize fmt gap ind (JBool b) = Some (if b then ''true'' else ''false'')"
| "serialize fmt gap ind (JNum r) = Some (number_to_string fmt r)"
| "serialize fmt gap ind (JStr s) = Some (json_quote s)"
| "serialize fmt gap ind (JArr xs) =
     (let partial = map (\<lambda>x. case serialize fmt gap (ind @ gap) x of
                               None \<Rightarrow> ''null''
                             | Some s \<Rightarrow> s) xs
      in Some (if partial = [] then ''[]''
               else if gap = [] then ''['' @ join '','' partial @ '']''
               else ''[\<newline>'' @ ind @ gap @ join ('',\<newline>'' @ ind @ gap) partial
                    @ ''\<newline>'' @ ind @ '']''))"
| "serialize fmt gap ind (JObj ps) =
     (let partial = concat (map (\<lambda>kv. case serialize fmt gap (ind @ gap) (snd kv) of
                               None \<Rightarrow> []
                             | Some s \<Rightarrow> [json_quote (fst kv) @ '':''
                                           @ (if gap = [] then [] else '' '') @ s]) ps)
      in Some (if partial = [] then ''{}''
               else if gap = [] then ''{'' @ join '','' partial @ ''}''
               else ''{\<newline>'' @ ind @ gap @ join ('',\<newline>'' @ ind @ gap) partial
                    @ ''\<newline>'' @ ind @ ''}''))"

text \<open>
  \<^verbatim>\<open>JSON.stringify(v)\<close> and \<^verbatim>\<open>JSON.stringify(v, null, 2)\<close>. The program applies them to
  object literals only, for which the result is a string.
\<close>

definition json_stringify :: "(rat \<Rightarrow> string) \<Rightarrow> js \<Rightarrow> string" where
  "json_stringify fmt v = (case serialize fmt [] [] v of None \<Rightarrow> ''undefined'' | Some s \<Rightarrow> s)"

definition json_stringify2 :: "(rat \<Rightarrow> string) \<Rightarrow> js \<Rightarrow> string" where
  "json_stringify2 fmt v =
     (case serialize fmt ''  '' [] v of None \<Rightarrow> ''undefined'' | Some s \<Rightarrow> s)"

section \<open>Effects and results\<close>

text \<open>
  A handler's run is its result together with the trace of what it did to the outside
  world, in order. The outside world answers through oracles: \<open>net\<close> for the weather
  API, \<open>exchange\<close> and \<open>graph\<close> for the identity chain.
\<close>

datatype fetch_outcome =
    Rejected
  | Responded nat "js option"

datatype event =
    Fetch string "(string \<times> string) list"
  | TokenExchange
  | GraphFetch string
  | ConsoleError string

fun is_fetch :: "event \<Rightarrow> bool" where
  "is_fetch (Fetch url hs) = True"
| "is_fetch ev = False"

datatype content_item = TextContent string

record envelope =
  content :: "content_item list"
  structuredContent :: js

definition tool_result :: "string \<Rightarrow> js \<Rightarrow> envelope" where
  "tool_result text output = \<lparr>content = [TextContent text], structuredContent = output\<rparr>"

section \<open>makeNWSRequest\<close>

definition NWS_API_BASE :: string where
  "NWS_API_BASE = ''https://api.weather.gov''"

definition USER_AGENT :: string where
  "USER_AGENT = ''weather-app/1.0''"

definition response_ok :: "nat \<Rightarrow> bool" where
  "response_ok status = (200 \<le> status \<and> status \<le> 299)"

text \<open>
  The body of the \<^verbatim>\<open>try\<close> block once \<^verbatim>\<open>fetch\<close> has the URL as a string: the fetch,
  the status check, the decoding.
\<close>

definition nws_try :: "(string \<Rightarrow> fetch_outcome) \<Rightarrow> string \<Rightarrow> js_error + js" where
  "nws_try net url =
     (case net url of
        Rejected \<Rightarrow> Inl NetworkError
      | Responded status payload \<Rightarrow>
          if \<not> response_ok status then Inl (HttpError status)
          else (case payload of None \<Rightarrow> Inl DecodeError | Some v \<Rightarrow> Inr v))"

text \<open>
  The declared type of \<open>url\<close> is \<^verbatim>\<open>string\<close>; the forecast handler passes what the
  grid-point payload holds. \<^verbatim>\<open>fetch\<close> converts it to a string inside the \<^verbatim>\<open>try\<close>
  block, and a conversion that throws is caught like any other failure.
\<close>

definition makeNWSRequest ::
  "(rat \<Rightarrow> string) \<Rightarrow> (string \<Rightarrow> fetch_outcome) \<Rightarrow> js \<Rightarrow> (js_error + js) \<times> event list" where
  "makeNWSRequest fmt net url =
     (let headers = [(''User-Agent'', USER_AGENT), (''Accept'', ''application/geo+json'')]
      in case js_to_string fmt url of
           Inl e \<Rightarrow> (Inr JNull, [ConsoleError ''Error making NWS request:''])
         | Inr u \<Rightarrow>
             (case nws_try net u of
                Inr v \<Rightarrow> (Inr v, [Fetch u headers])
              | Inl e \<Rightarrow>
                  (Inr JNull, [Fetch u headers, ConsoleError ''Error making NWS request:''])))"

section \<open>The get-alerts tool\<close>

text \<open>\<^verbatim>\<open>${obj.key || "dflt"}\<close>, the property read first.\<close>

definition field :: "(rat \<Rightarrow> string) \<Rightarrow> js \<Rightarrow> string \<Rightarrow> string \<Rightarrow> js_error + string" where
  "field fmt obj key dflt = bindE (get_prop obj key) (\<lambda>v. tmpl_or fmt v dflt)"

definition formatAlert :: "(rat \<Rightarrow> string) \<Rightarrow> js \<Rightarrow> js_error + string" where
  "formatAlert fmt feature =
     bindE (get_prop feature ''properties'') (\<lambda>props.
     bindE (field fmt props ''event'' ''Unknown'') (\<lambda>event.
     bindE (field fmt props ''areaDesc'' ''Unknown'') (\<lambda>areaDesc.
     bindE (field fmt props ''severity'' ''Unknown'') (\<lambda>severity.
     bindE (field fmt props ''status'' ''Unknown'') (\<lambda>status.
     bindE (field fmt props ''headline'' ''No headline'') (\<lambda>headline.
     Inr (join ''\<newline>''
       [''Event: '' @ event,
        ''Area: '' @ areaDesc,
        ''Severity: '' @ severity,
        ''Status: '' @ status,
        ''Headline: '' @ headline,
        ''---''])))))))"

text \<open>
  The handler is given the state code the input schema let through (a string of length
  two). It has no \<^verbatim>\<open>try\<close> block: what its body throws, it throws.
\<close>

definition get_alerts ::
  "(rat \<Rightarrow> string) \<Rightarrow> (string \<Rightarrow> string) \<Rightarrow> (string \<Rightarrow> fetch_outcome) \<Rightarrow> string
     \<Rightarrow> (js_error + envelope) \<times> event list" where
  "get_alerts fmt upper net state =
     (let stateCode = toUpperCase upper state;
          alertsUrl = NWS_API_BASE @ ''/alerts?area='' @ stateCode;
          (r, evs) = makeNWSRequest fmt net (JStr alertsUrl)
      in (bindE r (\<lambda>alertsData.
            if \<not> truthy alertsData then
              (let output = JObj [(''alerts'', JStr ''Failed to retrieve alerts data'')]
               in Inr (tool_result (json_stringify fmt output) output))
            else
              bindE (get_prop alertsData ''features'') (\<lambda>f.
              let features = or_else f (JArr []) in
              bindE (get_prop features ''length'') (\<lambda>len.
              if len = JNum 0 then
                (let output = JObj [(''alerts'', JStr (''No active alerts for '' @ stateCode))]
                 in Inr (tool_result (json_stringify fmt output) output))
              else
                bindE (array_map (formatAlert fmt) features) (\<lambda>formattedAlerts.
                let alertsText = ''Active alerts for '' @ stateCode @ '':\<newline>\<newline>''
                                   @ join ''\<newline>'' formattedAlerts;
                    output = JObj [(''alerts'', JStr alertsText)]
                in Inr (tool_result alertsText output))))), evs))"

section \<open>The get-forecast tool\<close>

text \<open>
  The two characters the source file has between a temperature and its unit: U+00C2 and
  U+00B0.
\<close>

definition degree_sign :: string where
  "degree_sign = [CHR 0xC2, CHR 0xB0]"

definition format_period :: "(rat \<Rightarrow> string) \<Rightarrow> js \<Rightarrow> js_error + string" where
  "format_period fmt period =
     bindE (field fmt period ''name'' ''Unknown'') (\<lambda>name.
     bindE (field fmt period ''temperature'' ''Unknown'') (\<lambda>temperature.
     bindE (field fmt period ''temperatureUnit'' ''F'') (\<lambda>temperatureUnit.
     bindE (field fmt period ''windSpeed'' ''Unknown'') (\<lambda>windSpeed.
     bindE (field fmt period ''windDirection'' []) (\<lambda>windDirection.
     bindE (field fmt period ''shortForecast'' ''No forecast available'') (\<lambda>shortForecast.
     Inr (join ''\<newline>''
       [name @ '':'',
        ''Temperature: '' @ temperature @ degree_sign @ temperatureUnit,
        ''Wind: '' @ windSpeed @ '' '' @ windDirection,
        shortForecast,
        ''---''])))))))"

text \<open>
  \<open>fixed4\<close> is \<^verbatim>\<open>x.toFixed(4)\<close>, whose digits depend on the floating-point
  representation of \<open>x\<close>. The forecast URL reaches \<open>makeNWSRequest\<close> as it is in the
  grid-point payload.
\<close>

definition get_forecast ::
  "(rat \<Rightarrow> string) \<Rightarrow> (rat \<Rightarrow> string) \<Rightarrow> (string \<Rightarrow> fetch_outcome) \<Rightarrow> rat \<Rightarrow> rat
     \<Rightarrow> (js_error + envelope) \<times> event list" where
  "get_forecast fmt fixed4 net latitude longitude =
     (let pointsUrl = NWS_API_BASE @ ''/points/'' @ fixed4 latitude @ '','' @ fixed4 longitude;
          (r1, evs1) = makeNWSRequest fmt net (JStr pointsUrl)
      in case r1 of
           Inl e \<Rightarrow> (Inl e, evs1)
         | Inr pointsData \<Rightarrow>
             if \<not> truthy pointsData then
               (let output = JObj [(''forecast'', JStr
                       (''Failed to retrieve grid point data for coordinates: ''
                        @ number_to_string fmt latitude @ '', ''
                        @ number_to_string fmt longitude
                        @ ''. This location may not be supported by the NWS API (only US locations are supported).''))]
                in (Inr (tool_result (json_stringify fmt output) output), evs1))
             else
               (case bindE (get_prop pointsData ''properties'') (\<lambda>props.
                          optional_get props ''forecast'') of
                  Inl e \<Rightarrow> (Inl e, evs1)
                | Inr forecastUrl \<Rightarrow>
                    if \<not> truthy forecastUrl then
                      (let output = JObj [(''forecast'',
                              JStr ''Failed to get forecast URL from grid point data'')]
                       in (Inr (tool_result (json_stringify fmt output) output), evs1))
                    else
                      (let (r2, evs2) = makeNWSRequest fmt net forecastUrl
                       in (bindE r2 (\<lambda>forecastData.
                             if \<not> truthy forecastData then
                               (let output = JObj [(''forecast'',
                                       JStr ''Failed to retrieve forecast data'')]
                                in Inr (tool_result (json_stringify fmt output) output))
                             else
                               bindE (get_prop forecastData ''properties'') (\<lambda>props.
                               bindE (optional_get props ''periods'') (\<lambda>p.
                               let periods = or_else p (JArr []) in
                               bindE (get_prop periods ''length'') (\<lambda>len.
                               if len = JNum 0 then
                                 (let output = JObj [(''forecast'',
                                         JStr ''No forecast periods available'')]
                                  in Inr (tool_result (json_stringify fmt output) output))
                               else
                                 bindE (array_map (format_period fmt) periods)
                                   (\<lambda>formattedForecast.
                                 let forecastText = ''Forecast for ''
                                         @ number_to_string fmt latitude @ '', ''
                                         @ number_to_string fmt longitude @ '':\<newline>\<newline>''
                                         @ join ''\<newline>'' formattedForecast;
                                     output = JObj [(''forecast'', JStr forecastText)]
                                 in Inr (tool_result forecastText output)))))),
                           evs1 @ evs2))))"

section \<open>The get_current_user tool\<close>

text \<open>
  The request metadata the SDK passes as \<^verbatim>\<open>extra\<close>. A header value is a string or a
  list of strings; a header that is not there is \<open>undefined\<close>.
\<close>

datatype header_value = HStr string | HList "string list"

type_synonym headers = "string \<rightharpoonup> header_value"

record request_info =
  headers :: "headers option"

record request_extra =
  requestInfo :: "request_info option"

text \<open>\<^verbatim>\<open>extra?.requestInfo?.headers\<close>\<close>

definition extra_headers :: "request_extra option \<Rightarrow> headers option" where
  "extra_headers extra =
     (case extra of
        None \<Rightarrow> None
      | Some x \<Rightarrow> (case requestInfo x of None \<Rightarrow> None | Some ri \<Rightarrow> headers ri))"

text \<open>\<^verbatim>\<open>s.split(' ')\<close> and \<^verbatim>\<open>xs[i]\<close>\<close>

fun split_on :: "char \<Rightarrow> string \<Rightarrow> string list" where
  "split_on c [] = [[]]"
| "split_on c (x # xs) =
     (if x = c then [] # split_on c xs
      else (case split_on c xs of [] \<Rightarrow> [[x]] | w # ws \<Rightarrow> (x # w) # ws))"

fun index :: "'a list \<Rightarrow> nat \<Rightarrow> 'a option" where
  "index [] i = None"
| "index (x # xs) 0 = Some x"
| "index (x # xs) (Suc i) = index xs i"

text \<open>\<^verbatim>\<open>(headers['authorization'] as string).split(' ')[1]\<close>: the cast checks nothing.\<close>

definition auth_token :: "headers \<Rightarrow> js_error + string option" where
  "auth_token hs =
     (case hs ''authorization'' of
        None \<Rightarrow> Inl TypeError
      | Some (HList xs) \<Rightarrow> Inl TypeError
      | Some (HStr s) \<Rightarrow> Inr (index (split_on CHR '' '' s) 1))"

text \<open>
  What the two credential objects are built from. \<open>exchange\<close> stands for the Azure
  identity SDK: the two constructors and \<^verbatim>\<open>oboCredential.getToken\<close>, any of which may
  throw; its result is the \<^verbatim>\<open>token\<close> field of the access token, if there is one.
\<close>

record obo_request =
  managedIdentityClientId :: "string option"
  assertionScope :: string
  tenantId :: "string option"
  clientId :: "string option"
  userAssertionToken :: "string option"

definition undefined_or :: "string option \<Rightarrow> string" where
  "undefined_or v = (case v of None \<Rightarrow> ''undefined'' | Some s \<Rightarrow> s)"

definition MASKED :: string where
  "MASKED = ''[MASKED]''"

text \<open>\<^verbatim>\<open>obj.k = v\<close> on the property list: in place if \<open>k\<close> is there, else at the end.\<close>

fun set_prop :: "string \<Rightarrow> js \<Rightarrow> (string \<times> js) list \<Rightarrow> (string \<times> js) list" where
  "set_prop k v [] = [(k, v)]"
| "set_prop k v (p # ps) = (if fst p = k then (k, v) # ps else p # set_prop k v ps)"

text \<open>
  \<^verbatim>\<open>{ ...v }\<close>: the own enumerable properties of \<open>v\<close>, which for an array or a string
  are its indices.
\<close>

fun spread :: "js \<Rightarrow> (string \<times> js) list" where
  "spread (JObj ps) = ps"
| "spread (JArr xs) = zip (map digits [0..<length xs]) xs"
| "spread (JStr s) = zip (map digits [0..<length s]) (map (\<lambda>c. JStr [c]) s)"
| "spread v = []"

definition mask_user :: "js \<Rightarrow> js_error + js" where
  "mask_user graphData =
     (let m0 = spread graphData;
          phones = own_prop m0 ''businessPhones''
      in bindE (if truthy phones
                then bindE (array_map (\<lambda>_. Inr (JStr MASKED)) phones) (\<lambda>masked.
                       Inr (set_prop ''businessPhones'' (JArr masked) m0))
                else Inr m0) (\<lambda>m1.
         let ident = own_prop m1 ''id''
         in Inr (JObj (if truthy ident then set_prop ''id'' (JStr MASKED) m1 else m1))))"

text \<open>The \<^verbatim>\<open>try\<close> block, with the trace up to the point it returned or threw.\<close>

definition current_user_try ::
  "(rat \<Rightarrow> string) \<Rightarrow> (string \<rightharpoonup> string) \<Rightarrow> (obo_request \<Rightarrow> js_error + string option)
     \<Rightarrow> (string \<Rightarrow> fetch_outcome) \<Rightarrow> headers \<Rightarrow> (js_error + envelope) \<times> event list" where
  "current_user_try fmt env exchange graph hs =
     (case auth_token hs of
        Inl e \<Rightarrow> (Inl e, [])
      | Inr authToken \<Rightarrow>
          (let tokenExchangeAudience =
                 (case env ''TokenExchangeAudience'' of
                    None \<Rightarrow> ''api://AzureADTokenExchange'' | Some a \<Rightarrow> a);
               req = \<lparr>managedIdentityClientId = env ''OVERRIDE_USE_MI_FIC_ASSERTION_CLIENTID'',
                      assertionScope = tokenExchangeAudience @ ''/.default'',
                      tenantId = env ''WEBSITE_AUTH_AAD_ALLOWED_TENANTS'',
                      clientId = env ''WEBSITE_AUTH_CLIENT_ID'',
                      userAssertionToken = authToken\<rparr>
           in case exchange req of
                Inl e \<Rightarrow> (Inl e, [TokenExchange])
              | Inr token \<Rightarrow>
                  (let authorization = ''Bearer '' @ undefined_or token;
                       evs = [TokenExchange, GraphFetch authorization]
                   in case graph authorization of
                        Rejected \<Rightarrow> (Inl NetworkError, evs)
                      | Responded status None \<Rightarrow> (Inl DecodeError, evs)
                      | Responded status (Some graphData) \<Rightarrow>
                          (bindE (mask_user graphData) (\<lambda>maskedUserData.
                             let output = JObj
                                   [(''authenticated'', JBool True),
                                    (''user'', maskedUserData),
                                    (''message'', JStr
                                       ''Successfully retrieved user information from Microsoft Graph'')]
                             in Inr (tool_result (json_stringify2 fmt output) output)), evs))))"

definition consent_message :: "(string \<rightharpoonup> string) \<Rightarrow> string" where
  "consent_message env =
     ''Error during token exchange and Graph API call. You'' @ [CHR 0x27]
     @ ''re logged in but might need to grant consent to the application. Open a browser to the following link to consent: https://''
     @ undefined_or (env ''WEBSITE_HOSTNAME'')
     @ ''/.auth/login/aad?post_login_redirect_uri=https://''
     @ undefined_or (env ''WEBSITE_HOSTNAME'') @ ''/authcomplete''"

definition get_current_user ::
  "(rat \<Rightarrow> string) \<Rightarrow> (string \<rightharpoonup> string) \<Rightarrow> (obo_request \<Rightarrow> js_error + string option)
     \<Rightarrow> (string \<Rightarrow> fetch_outcome) \<Rightarrow> request_extra option
     \<Rightarrow> (js_error + envelope) \<times> event list" where
  "get_current_user fmt env exchange graph extra =
     (case extra_headers extra of
        None \<Rightarrow>
          (let output = JObj [(''authenticated'', JBool False),
                              (''message'', JStr ''No authentication headers found'')]
           in (Inr (tool_result (json_stringify2 fmt output) output), []))
      | Some hs \<Rightarrow>
          (case current_user_try fmt env exchange graph hs of
             (Inr result, evs) \<Rightarrow> (Inr result, evs)
           | (Inl e, evs) \<Rightarrow>
               (let errorOutput = JObj [(''authenticated'', JBool False),
                                        (''message'', JStr (consent_message env))]
                in (Inr (tool_result (json_stringify2 fmt errorOutput) errorOutput),
                    evs @ [ConsoleError ''Error during token exchange and Graph API call:'']))))"

section \<open>The HTTP front end\<close>

text \<open>
  Objects the front end creates are told apart by the number they were allocated under.
  The module keeps one registry in \<^verbatim>\<open>const server = createServer()\<close>, made when the
  module is loaded.
\<close>

text \<open>
  \<open>connections\<close> lists the calls \<^verbatim>\<open>server.connect(transport)\<close>, each as the registry and
  the transport it was made on.
\<close>

record app_state =
  next_instance :: nat
  registries :: "(nat \<times> string list) list"
  transports :: "nat list"
  connections :: "(nat \<times> nat) list"
  server :: nat

definition createServer :: "app_state \<Rightarrow> nat \<times> app_state" where
  "createServer st =
     (let s = next_instance st
      in (s, st\<lparr>next_instance := Suc s,
               registries := registries st
                 @ [(s, [''get-alerts'', ''get-forecast'', ''get_current_user''])]\<rparr>))"

definition startup :: app_state where
  "startup =
     (let st0 = \<lparr>next_instance = 0, registries = [], transports = [], connections = [],
                 server = 0\<rparr>;
          (s, st1) = createServer st0
      in st1\<lparr>server := s\<rparr>)"

record response =
  statusCode :: nat
  headersSent :: bool
  body :: "string option"

definition fresh_response :: response where
  "fresh_response = \<lparr>statusCode = 200, headersSent = False, body = None\<rparr>"

text \<open>
  What \<^verbatim>\<open>server.connect(transport)\<close> and \<^verbatim>\<open>transport.handleRequest(req, res, req.body)\<close>
  did to the response, and whether they returned or threw: the SDK's part, an oracle
  given the registry and the transport it runs on.
\<close>

datatype dispatch_outcome = Returned response | Threw response

record served =
  registry :: nat
  transport :: nat

definition internal_error_body :: js where
  "internal_error_body =
     JObj [(''jsonrpc'', JStr ''2.0''),
           (''error'', JObj [(''code'', JNum (- 32603)),
                             (''message'', JStr ''Internal server error'')]),
           (''id'', JNull)]"

definition post_mcp ::
  "(rat \<Rightarrow> string) \<Rightarrow> (nat \<Rightarrow> nat \<Rightarrow> response \<Rightarrow> dispatch_outcome) \<Rightarrow> app_state \<Rightarrow> response
     \<Rightarrow> response \<times> served \<times> app_state" where
  "post_mcp fmt sdk st res =
     (let t = next_instance st;
          st1 = st\<lparr>next_instance := Suc t, transports := transports st @ [t]\<rparr>;
          st2 = st1\<lparr>connections := connections st1 @ [(server st1, t)]\<rparr>;
          by_whom = \<lparr>registry = server st1, transport = t\<rparr>
      in case sdk (server st1) t res of
           Returned r \<Rightarrow> (r, by_whom, st2)
         | Threw r \<Rightarrow>
             (if \<not> headersSent r
              then (r\<lparr>statusCode := 500, headersSent := True,
                      body := Some (json_stringify fmt internal_error_body)\<rparr>, by_whom, st2)
              else (r, by_whom, st2)))"

definition method_not_allowed_body :: js where
  "method_not_allowed_body =
     JObj [(''jsonrpc'', JStr ''2.0''),
           (''error'', JObj [(''code'', JNum (- 32000)),
                             (''message'', JStr ''Method not allowed.'')]),
           (''id'', JNull)]"

definition get_mcp :: "(rat \<Rightarrow> string) \<Rightarrow> response \<Rightarrow> response" where
  "get_mcp fmt res =
     res\<lparr>statusCode := 405, headersSent := True,
         body := Some (json_stringify fmt method_not_allowed_body)\<rparr>"

definition delete_mcp :: "(rat \<Rightarrow> string) \<Rightarrow> response \<Rightarrow> response" where
  "delete_mcp fmt res =
     res\<lparr>statusCode := 405, headersSent := True,
         body := Some (json_stringify fmt method_not_allowed_body)\<rparr>"

text \<open>
  The routes the program registers on \<^verbatim>\<open>/mcp\<close>. A request no route matches is
  answered by the framework, not by this program: \<open>None\<close>.
\<close>

datatype http_method = GET | POST | PUT | PATCH | DELETE

definition mcp_endpoint ::
  "(rat \<Rightarrow> string) \<Rightarrow> (nat \<Rightarrow> nat \<Rightarrow> response \<Rightarrow> dispatch_outcome) \<Rightarrow> app_state
     \<Rightarrow> http_method \<Rightarrow> response \<Rightarrow> (response \<times> app_state) option" where
  "mcp_endpoint fmt sdk st m res =
     (case m of
        POST \<Rightarrow> (let (r, by_whom, st') = post_mcp fmt sdk st res in Some (r, st'))
      | GET \<Rightarrow> Some (get_mcp fmt res, st)
      | DELETE \<Rightarrow> Some (delete_mcp fmt res, st)
      | PUT \<Rightarrow> None
      | PATCH \<Rightarrow> None)"

section \<open>Sample inputs\<close>

text \<open>
  Concrete oracles and inputs on which the properties below are evaluated. \<open>sample_fmt\<close>
  prints the numbers that are not integers and \<open>sample_upper\<close> maps the strings that
  are not ASCII; none of the inputs has one.
\<close>

definition sample_fmt :: "rat \<Rightarrow> string" where
  "sample_fmt r = ''0.5''"

definition sample_upper :: "string \<Rightarrow> string" where
  "sample_upper s = s"

definition sdk_throws_late :: "nat \<Rightarrow> nat \<Rightarrow> response \<Rightarrow> dispatch_outcome" where
  "sdk_throws_late reg t res = Threw (res\<lparr>headersSent := True\<rparr>)"

definition sdk_throws_early :: "nat \<Rightarrow> nat \<Rightarrow> response \<Rightarrow> dispatch_outcome" where
  "sdk_throws_early reg t res = Threw res"

definition net_malformed_feature :: "string \<Rightarrow> fetch_outcome" where
  "net_malformed_feature url = Responded 200 (Some (JObj [(''features'', JArr [JObj []])]))"

definition net_no_alerts :: "string \<Rightarrow> fetch_outcome" where
  "net_no_alerts url = Responded 200 (Some (JObj [(''features'', JArr [])]))"

definition sample_fixed4 :: "rat \<Rightarrow> string" where
  "sample_fixed4 r = int_str \<lfloor>r\<rfloor> @ ''.0000''"

definition falsy_period :: "(string \<times> js) list" where
  "falsy_period =
     [(''name'', JStr []), (''temperature'', JNum 0), (''temperatureUnit'', JStr []),
      (''windSpeed'', JStr []), (''windDirection'', JStr ''NW''), (''shortForecast'', JStr [])]"

definition net_not_found :: "string \<Rightarrow> fetch_outcome" where
  "net_not_found url = Responded 404 None"

definition exchange_ok :: "obo_request \<Rightarrow> js_error + string option" where
  "exchange_ok req = Inr (Some ''graph-token'')"

definition signed_in :: "request_extra option" where
  "signed_in = Some \<lparr>requestInfo = Some \<lparr>headers =
     Some [''authorization'' \<mapsto> HStr ''Bearer user-token'']\<rparr>\<rparr>"

definition no_env :: "string \<rightharpoonup> string" where
  "no_env = Map.empty"

definition graph_profile :: "string \<Rightarrow> fetch_outcome" where
  "graph_profile authorization = Responded 200 (Some (JObj
     [(''businessPhones'', JArr [JStr ''+1 555 0100'']),
      (''displayName'', JStr ''Adele Vance''),
      (''mobilePhone'', JNull),
      (''id'', JStr ''87d349ed'')]))"

definition graph_profile_unmasked :: "string \<Rightarrow> fetch_outcome" where
  "graph_profile_unmasked authorization = Responded 200 (Some (JObj
     [(''businessPhones'', JArr [JStr ''+1 555 0100'']),
      (''mobilePhone'', JStr ''+1 555 0100''),
      (''id'', JNum 0)]))"

definition signed_in_output :: js where
  "signed_in_output =
     JObj [(''authenticated'', JBool True),
           (''user'', JObj
              [(''businessPhones'', JArr [JStr ''[MASKED]'']),
               (''displayName'', JStr ''Adele Vance''),
               (''mobilePhone'', JNull),
               (''id'', JStr ''[MASKED]'')]),
           (''message'', JStr ''Successfully retrieved user information from Microsoft Graph'')]"

definition signed_in_result :: envelope where
  "signed_in_result = tool_result (json_stringify2 sample_fmt signed_in_output) signed_in_output"

section \<open>Properties\<close>

subsection \<open>Evaluation lemmas\<close>

lemma startup_eval: "startup = \<lparr>next_instance = 1, registries = [(0, [''get-alerts'', ''get-forecast'', ''get_current_user''])], transports = [], connections = [], server = 0\<rparr>"
  by (simp add: startup_def createServer_def Let_def)

lemma json_405: \<open>json_stringify fmt method_not_allowed_body = ''{"jsonrpc":"2.0","error":{"code":-32000,"message":"Method not allowed."},"id":null}''\<close>
  by (simp add: json_stringify_def method_not_allowed_body_def json_quote_def json_escape_def number_to_string_def int_str_def digits.simps)

lemma json_500: \<open>json_stringify fmt internal_error_body = ''{"jsonrpc":"2.0","error":{"code":-32603,"message":"Internal server error"},"id":null}''\<close>
  by (simp add: json_stringify_def internal_error_body_def json_quote_def json_escape_def number_to_string_def int_str_def digits.simps)

lemma slot_falsy: "\<not> truthy (own_prop ps k) \<Longrightarrow> slot fmt ps k d = Inr d"
  by (simp add: slot_def tmpl_or_def or_else_def)

lemma slot_absent: "map_of ps k = None \<Longrightarrow> slot fmt ps k d = Inr d"
  by (simp add: slot_def tmpl_or_def or_else_def own_prop_def)

lemma field_object: "field fmt (JObj ps) k d = slot fmt ps k d"
  by (simp add: field_def slot_def bindE_def)

lemma format_period_object:
  assumes "slot fmt ps ''name'' ''Unknown'' = Inr name"
    and "slot fmt ps ''temperature'' ''Unknown'' = Inr temperature"
    and "slot fmt ps ''temperatureUnit'' ''F'' = Inr temperatureUnit"
    and "slot fmt ps ''windSpeed'' ''Unknown'' = Inr windSpeed"
    and "slot fmt ps ''windDirection'' [] = Inr windDirection"
    and "slot fmt ps ''shortForecast'' ''No forecast available'' = Inr shortForecast"
  shows "format_period fmt (JObj ps) =
     Inr (join ''\<newline>''
       [name @ '':'',
        ''Temperature: '' @ temperature @ degree_sign @ temperatureUnit,
        ''Wind: '' @ windSpeed @ '' '' @ windDirection,
        shortForecast,
        ''---''])"
  using assms by (simp add: format_period_def field_object bindE_def)

lemma formatAlert_object:
  assumes "own_prop fs ''properties'' = JObj ps"
    and "slot fmt ps ''event'' ''Unknown'' = Inr event"
    and "slot fmt ps ''areaDesc'' ''Unknown'' = Inr areaDesc"
    and "slot fmt ps ''severity'' ''Unknown'' = Inr severity"
    and "slot fmt ps ''status'' ''Unknown'' = Inr status"
    and "slot fmt ps ''headline'' ''No headline'' = Inr headline"
  shows "formatAlert fmt (JObj fs) =
     Inr (join ''\<newline>''
       [''Event: '' @ event,
        ''Area: '' @ areaDesc,
        ''Severity: '' @ severity,
        ''Status: '' @ status,
        ''Headline: '' @ headline,
        ''---''])"
  using assms by (simp add: formatAlert_def field_object bindE_def)

subsection \<open>Strings that need no escaping\<close>

lemma plain_append: "plain a \<Longrightarrow> plain b \<Longrightarrow> plain (a @ b)"
  by (simp add: plain_def)

lemma plain_digit_table: "list_all (\<lambda>k. plain [''0123456789'' ! k]) [0..<10]"
  by code_simp

lemma plain_digit: "k < 10 \<Longrightarrow> plain [''0123456789'' ! k]"
  using plain_digit_table by (simp add: list_all_iff)

lemma plain_digits: "plain (digits n)"
proof (induction n rule: digits.induct)
  case (1 n)
  show ?case
  proof (cases "n < 10")
    case True
    have "digits n = [''0123456789'' ! n]"
      using True by (subst digits.simps) simp
    then show ?thesis using plain_digit [OF True] by simp
  next
    case False
    have "digits n = digits (n div 10) @ [''0123456789'' ! (n mod 10)]"
      using False by (subst digits.simps) simp
    moreover have "plain [''0123456789'' ! (n mod 10)]"
      by (rule plain_digit) simp
    ultimately show ?thesis using 1 [OF False] by (simp add: plain_append)
  qed
qed

lemma plain_int_str: "plain (int_str i)"
proof -
  have "plain ''-''" by (simp add: plain_def json_escape_def)
  then have "plain (''-'' @ digits k)" for k
    using plain_digits by (rule plain_append)
  then show ?thesis using plain_digits by (simp add: int_str_def)
qed

lemma plain_number: "\<forall>r. plain (fmt r) \<Longrightarrow> plain (number_to_string fmt r)"
  using plain_int_str by (simp add: number_to_string_def)

lemma json_quote_plain: "plain s \<Longrightarrow> json_quote s = CHR 0x22 # s @ [CHR 0x22]"
  by (simp add: json_quote_def plain_def)

lemma grid_point_message_plain:
  assumes "plain a" and "plain b"
  shows "plain (''Failed to retrieve grid point data for coordinates: '' @ a @ '', '' @ b
     @ ''. This location may not be supported by the NWS API (only US locations are supported).'')"
proof -
  have 1: "plain ''Failed to retrieve grid point data for coordinates: ''"
    by (simp add: plain_def json_escape_def)
  have 2: "plain '', ''"
    by (simp add: plain_def json_escape_def)
  have 3: "plain ''. This location may not be supported by the NWS API (only US locations are supported).''"
    by (simp add: plain_def json_escape_def)
  show ?thesis
    by (intro plain_append 1 2 3 assms)
qed

lemma makeNWSRequest_fetches:
  "filter is_fetch (snd (makeNWSRequest fmt net (JStr url))) =
     [Fetch url [(''User-Agent'', USER_AGENT), (''Accept'', ''application/geo+json'')]]"
  by (simp add: makeNWSRequest_def Let_def split: sum.split)

subsection \<open>The HTTP front end\<close>

text \<open>
  C1. The claim: every inbound call is served by a registry and a transport made for
  it alone. What the code does: \<open>post_mcp\<close> makes a new transport for each request and
  connects it to the one registry the module made at load time. For any state \<open>st\<close> and
  any two requests handled one after the other, the registry that serves the first is
  the registry that serves the second, the transports differ, and no request adds a
  registry.
\<close>

theorem two_posts_one_registry:
  "registry (fst (snd (post_mcp fmt sdk1 st res1)))
     = registry (fst (snd (post_mcp fmt sdk2 (snd (snd (post_mcp fmt sdk1 st res1))) res2)))
   \<and> transport (fst (snd (post_mcp fmt sdk1 st res1)))
     \<noteq> transport (fst (snd (post_mcp fmt sdk2 (snd (snd (post_mcp fmt sdk1 st res1))) res2)))
   \<and> length (registries (snd (snd (post_mcp fmt sdk1 st res1)))) = length (registries st)"
  by (simp add: post_mcp_def Let_def split: dispatch_outcome.split)

text \<open>
  C9, as the code has it. A GET or a DELETE on the endpoint is answered with status 405
  and the fixed body with code -32000 and message "Method not allowed."; the program
  registers no handler for any other verb than GET, DELETE and POST. When the dispatch
  of a POST throws before the response headers are sent, the response is status 500
  with code -32603 and message "Internal server error"; when it throws after they are
  sent, the response is left as it is.
\<close>

theorem mcp_error_payloads:
  \<open>(m = GET \<or> m = DELETE \<longrightarrow>
      mcp_endpoint fmt sdk st m res =
        Some (res\<lparr>statusCode := 405, headersSent := True,
                  body := Some ''{"jsonrpc":"2.0","error":{"code":-32000,"message":"Method not allowed."},"id":null}''\<rparr>, st)) \<and>
   (sdk (server st) (next_instance st) res = Threw r \<and> \<not> headersSent r \<longrightarrow>
      map_option fst (mcp_endpoint fmt sdk st POST res) =
        Some (r\<lparr>statusCode := 500, headersSent := True,
                body := Some ''{"jsonrpc":"2.0","error":{"code":-32603,"message":"Internal server error"},"id":null}''\<rparr>)) \<and>
   (sdk' (server st) (next_instance st) res = Threw r' \<and> headersSent r' \<longrightarrow>
      map_option fst (mcp_endpoint fmt sdk' st POST res) = Some r')\<close>
  by (auto simp: mcp_endpoint_def get_mcp_def delete_mcp_def post_mcp_def Let_def json_405 json_500)

theorem mcp_error_payloads_witness:
  \<open>mcp_endpoint sample_fmt sdk_throws_early startup GET fresh_response =
      Some (\<lparr>statusCode = 405, headersSent = True,
             body = Some ''{"jsonrpc":"2.0","error":{"code":-32000,"message":"Method not allowed."},"id":null}''\<rparr>, startup) \<and>
   sdk_throws_early (server startup) (next_instance startup) fresh_response = Threw fresh_response \<and>
   \<not> headersSent fresh_response \<and>
   map_option fst (mcp_endpoint sample_fmt sdk_throws_early startup POST fresh_response) =
      Some \<lparr>statusCode = 500, headersSent = True,
             body = Some ''{"jsonrpc":"2.0","error":{"code":-32603,"message":"Internal server error"},"id":null}''\<rparr> \<and>
   sdk_throws_late (server startup) (next_instance startup) fresh_response
      = Threw (fresh_response\<lparr>headersSent := True\<rparr>) \<and>
   map_option fst (mcp_endpoint sample_fmt sdk_throws_late startup POST fresh_response) =
      Some \<lparr>statusCode = 200, headersSent = True, body = None\<rparr>\<close>
  using mcp_error_payloads [of GET sample_fmt sdk_throws_early startup fresh_response
      fresh_response sdk_throws_late "fresh_response\<lparr>headersSent := True\<rparr>"]
  by (simp add: sdk_throws_early_def sdk_throws_late_def fresh_response_def)

text \<open>
  The claim as written fails twice: a PUT on the endpoint reaches no handler of the
  program, and a dispatch failure after the headers are sent leaves a response without
  the -32603 body.
\<close>

theorem mcp_error_payloads_counterexample:
  \<open>mcp_endpoint sample_fmt sdk_throws_late startup PUT fresh_response = None \<and>
   map_option fst (mcp_endpoint sample_fmt sdk_throws_late startup POST fresh_response) =
      Some \<lparr>statusCode = 200, headersSent = True, body = None\<rparr>\<close>
  by (simp add: mcp_endpoint_def post_mcp_def Let_def sdk_throws_late_def fresh_response_def)

subsection \<open>makeNWSRequest\<close>

lemma makeNWSRequest_result:
  "fst (makeNWSRequest fmt net (JStr url)) =
     Inr (case nws_try net url of Inl e \<Rightarrow> JNull | Inr v \<Rightarrow> v)"
  by (simp add: makeNWSRequest_def Let_def split: sum.split)

text \<open>
  C4. Whatever the URL and whatever the network does, \<open>makeNWSRequest\<close> returns a value
  and throws nothing: the parsed payload when the response has a 2xx status and
  decodes, and \<open>null\<close> when the status is not 2xx, when the fetch fails and when the
  body does not decode.
\<close>

theorem makeNWSRequest_payload_or_null:
  "fst (makeNWSRequest fmt net (JStr url)) =
     Inr (case net url of
            Rejected \<Rightarrow> JNull
          | Responded status None \<Rightarrow> JNull
          | Responded status (Some payload) \<Rightarrow>
              if 200 \<le> status \<and> status \<le> 299 then payload else JNull)"
  by (auto simp: makeNWSRequest_result nws_try_def response_ok_def
            split: fetch_outcome.split option.split)

subsection \<open>The weather tools\<close>

text \<open>
  C6. The claim: no handler lets an exception escape, whatever the upstream payload.
  What the code does: the alerts handler has no \<^verbatim>\<open>try\<close> block, and \<open>formatAlert\<close> reads
  the fields of \<^verbatim>\<open>feature.properties\<close> without checking that it is there. On the
  payload \<^verbatim>\<open>{"features":[{}]}\<close> with status 200 the handler throws a TypeError.
\<close>

theorem get_alerts_throws:
  "get_alerts fmt upper net_malformed_feature ''CA'' =
     (Inl TypeError, [Fetch ''https://api.weather.gov/alerts?area=CA''
        [(''User-Agent'', ''weather-app/1.0''), (''Accept'', ''application/geo+json'')]])"
  by (simp add: get_alerts_def makeNWSRequest_def nws_try_def net_malformed_feature_def
        response_ok_def Let_def bindE_def or_else_def own_prop_def formatAlert_def field_def
        mapE_def toUpperCase_def upper_char_def NWS_API_BASE_def USER_AGENT_def)

text \<open>
  C7, as the code has it. When the alerts feed answers with a 2xx status and an object
  whose \<open>features\<close> is the empty list, the structured form's \<open>alerts\<close> field is
  "No active alerts for " followed by the upper-cased state code, the output text is
  the JSON text of that structured form, and one fetch was made.
\<close>

theorem no_alerts_envelope:
  assumes "net (NWS_API_BASE @ ''/alerts?area='' @ toUpperCase upper state)
             = Responded status (Some (JObj ps))"
    and "200 \<le> status" and "status \<le> 299"
    and "map_of ps ''features'' = Some (JArr [])"
  shows "get_alerts fmt upper net state =
     (Inr \<lparr>content = [TextContent (''{'' @ json_quote ''alerts'' @ '':''
                @ json_quote (''No active alerts for '' @ toUpperCase upper state) @ ''}'')],
           structuredContent =
             JObj [(''alerts'', JStr (''No active alerts for '' @ toUpperCase upper state))]\<rparr>,
      [Fetch (NWS_API_BASE @ ''/alerts?area='' @ toUpperCase upper state)
         [(''User-Agent'', USER_AGENT), (''Accept'', ''application/geo+json'')]])"
  using assms
  by (simp add: get_alerts_def makeNWSRequest_def nws_try_def response_ok_def Let_def
        bindE_def or_else_def own_prop_def tool_result_def json_stringify_def)

theorem no_alerts_envelope_witness:
  \<open>net_no_alerts (NWS_API_BASE @ ''/alerts?area='' @ toUpperCase sample_upper ''ca'')
      = Responded 200 (Some (JObj [(''features'', JArr [])])) \<and>
   (200::nat) \<le> 200 \<and> (200::nat) \<le> 299 \<and>
   map_of [(''features'', JArr [])] ''features'' = Some (JArr []) \<and>
   get_alerts sample_fmt sample_upper net_no_alerts ''ca'' =
     (Inr \<lparr>content = [TextContent ''{"alerts":"No active alerts for CA"}''],
           structuredContent = JObj [(''alerts'', JStr ''No active alerts for CA'')]\<rparr>,
      [Fetch ''https://api.weather.gov/alerts?area=CA''
         [(''User-Agent'', ''weather-app/1.0''), (''Accept'', ''application/geo+json'')]])\<close>
  using no_alerts_envelope [of net_no_alerts sample_upper "''ca''" 200 "[(''features'', JArr [])]"
      sample_fmt]
  by (simp add: net_no_alerts_def toUpperCase_def upper_char_def NWS_API_BASE_def
        USER_AGENT_def json_quote_def json_escape_def)

text \<open>
  The claim as written fails: the output text is the JSON text of the structured form,
  not the bare sentence, and the code in it is the upper-cased one.
\<close>

theorem no_alerts_text_counterexample:
  \<open>fst (get_alerts sample_fmt sample_upper net_no_alerts ''CA'') =
     Inr \<lparr>content = [TextContent ''{"alerts":"No active alerts for CA"}''],
          structuredContent = JObj [(''alerts'', JStr ''No active alerts for CA'')]\<rparr> \<and>
   ''{"alerts":"No active alerts for CA"}'' \<noteq> ''No active alerts for CA'' \<and>
   fst (get_alerts sample_fmt sample_upper net_no_alerts ''ca'') =
     Inr \<lparr>content = [TextContent ''{"alerts":"No active alerts for CA"}''],
          structuredContent = JObj [(''alerts'', JStr ''No active alerts for CA'')]\<rparr>\<close>
  by (simp add: get_alerts_def makeNWSRequest_def nws_try_def response_ok_def Let_def
        bindE_def or_else_def own_prop_def tool_result_def json_stringify_def
        net_no_alerts_def toUpperCase_def upper_char_def json_quote_def json_escape_def)

text \<open>
  C8, as the code has it. Each optional field that is absent renders as the default of
  its place: "Unknown" for event, areaDesc, severity, status, name, temperature and
  windSpeed, "No headline" for headline, "F" for temperatureUnit, "No forecast
  available" for shortForecast and the empty string for windDirection. Both formatters
  are functions of the record alone, so formatting the same record again gives the same
  string.
\<close>

theorem absent_fields_render_their_defaults:
  "(own_prop fs ''properties'' = JObj ps \<and>
    slot fmt ps ''event'' ''Unknown'' = Inr event \<and>
    slot fmt ps ''areaDesc'' ''Unknown'' = Inr areaDesc \<and>
    slot fmt ps ''severity'' ''Unknown'' = Inr severity \<and>
    slot fmt ps ''status'' ''Unknown'' = Inr status \<and>
    slot fmt ps ''headline'' ''No headline'' = Inr headline \<longrightarrow>
      formatAlert fmt (JObj fs) =
        Inr (join ''\<newline>''
          [''Event: '' @ event,
           ''Area: '' @ areaDesc,
           ''Severity: '' @ severity,
           ''Status: '' @ status,
           ''Headline: '' @ headline,
           ''---''])) \<and>
   (slot fmt qs ''name'' ''Unknown'' = Inr name \<and>
    slot fmt qs ''temperature'' ''Unknown'' = Inr temperature \<and>
    slot fmt qs ''temperatureUnit'' ''F'' = Inr temperatureUnit \<and>
    slot fmt qs ''windSpeed'' ''Unknown'' = Inr windSpeed \<and>
    slot fmt qs ''windDirection'' [] = Inr windDirection \<and>
    slot fmt qs ''shortForecast'' ''No forecast available'' = Inr shortForecast \<longrightarrow>
      format_period fmt (JObj qs) =
        Inr (join ''\<newline>''
          [name @ '':'',
           ''Temperature: '' @ temperature @ degree_sign @ temperatureUnit,
           ''Wind: '' @ windSpeed @ '' '' @ windDirection,
           shortForecast,
           ''---''])) \<and>
   (map_of rs k = None \<longrightarrow> slot fmt rs k d = Inr d)"
  by (simp add: formatAlert_object format_period_object slot_absent)

theorem absent_fields_render_their_defaults_witness:
  "own_prop [(''properties'', JObj [(''event'', JStr ''Flood Warning'')])] ''properties''
     = JObj [(''event'', JStr ''Flood Warning'')] \<and>
   slot sample_fmt [(''event'', JStr ''Flood Warning'')] ''event'' ''Unknown''
     = Inr ''Flood Warning'' \<and>
   slot sample_fmt [(''event'', JStr ''Flood Warning'')] ''areaDesc'' ''Unknown'' = Inr ''Unknown'' \<and>
   slot sample_fmt [(''event'', JStr ''Flood Warning'')] ''severity'' ''Unknown'' = Inr ''Unknown'' \<and>
   slot sample_fmt [(''event'', JStr ''Flood Warning'')] ''status'' ''Unknown'' = Inr ''Unknown'' \<and>
   slot sample_fmt [(''event'', JStr ''Flood Warning'')] ''headline'' ''No headline''
     = Inr ''No headline'' \<and>
   formatAlert sample_fmt (JObj [(''properties'', JObj [(''event'', JStr ''Flood Warning'')])]) =
     Inr ''Event: Flood Warning\<newline>Area: Unknown\<newline>Severity: Unknown\<newline>Status: Unknown\<newline>Headline: No headline\<newline>---'' \<and>
   slot sample_fmt [(''temperature'', JNum 72)] ''name'' ''Unknown'' = Inr ''Unknown'' \<and>
   slot sample_fmt [(''temperature'', JNum 72)] ''temperature'' ''Unknown'' = Inr ''72'' \<and>
   slot sample_fmt [(''temperature'', JNum 72)] ''temperatureUnit'' ''F'' = Inr ''F'' \<and>
   slot sample_fmt [(''temperature'', JNum 72)] ''windSpeed'' ''Unknown'' = Inr ''Unknown'' \<and>
   slot sample_fmt [(''temperature'', JNum 72)] ''windDirection'' [] = Inr [] \<and>
   slot sample_fmt [(''temperature'', JNum 72)] ''shortForecast'' ''No forecast available''
     = Inr ''No forecast available'' \<and>
   format_period sample_fmt (JObj [(''temperature'', JNum 72)]) =
     Inr (''Unknown:\<newline>Temperature: 72'' @ degree_sign
          @ ''F\<newline>Wind: Unknown \<newline>No forecast available\<newline>---'') \<and>
   map_of [(''temperature'', JNum 72)] ''windDirection'' = None"
  using absent_fields_render_their_defaults [of
     "[(''properties'', JObj [(''event'', JStr ''Flood Warning'')])]"
     "[(''event'', JStr ''Flood Warning'')]" sample_fmt
     "''Flood Warning''" "''Unknown''" "''Unknown''" "''Unknown''" "''No headline''"
     "[(''temperature'', JNum 72)]"
     "''Unknown''" "''72''" "''F''" "''Unknown''" "[]" "''No forecast available''"
     "[(''temperature'', JNum 72)]" "''windDirection''" "[]"]
  by (simp add: slot_def tmpl_or_def or_else_def own_prop_def number_to_string_def int_str_def
        digits.simps)

text \<open>
  The claim as written fails: a period with no field at all renders its wind direction
  as the empty string, its unit as "F" and its forecast as "No forecast available", and
  an alert without a headline renders "No headline".
\<close>

theorem absent_fields_counterexample:
  "format_period sample_fmt (JObj []) =
     Inr (''Unknown:\<newline>Temperature: Unknown'' @ degree_sign
          @ ''F\<newline>Wind: Unknown \<newline>No forecast available\<newline>---'') \<and>
   format_period sample_fmt (JObj []) \<noteq>
     Inr (''Unknown:\<newline>Temperature: Unknown'' @ degree_sign
          @ ''Unknown\<newline>Wind: Unknown Unknown\<newline>Unknown\<newline>---'') \<and>
   formatAlert sample_fmt (JObj [(''properties'', JObj [])]) =
     Inr ''Event: Unknown\<newline>Area: Unknown\<newline>Severity: Unknown\<newline>Status: Unknown\<newline>Headline: No headline\<newline>---''"
  by (simp add: format_period_def formatAlert_def field_def bindE_def tmpl_or_def
        or_else_def own_prop_def degree_sign_def)

text \<open>
  C10. A forecast period is formatted from the \<open>slot\<close> of each field, and the slot of a
  field that is present but falsy is the default: "Unknown" for a temperature of 0 and
  for an empty name or windSpeed, "F" for an empty temperatureUnit, "No forecast
  available" for an empty shortForecast. The substitution looks at the truthiness of
  the value, not at its presence.
\<close>

theorem falsy_period_fields_render_defaults:
  "(slot fmt ps ''name'' ''Unknown'' = Inr name \<and>
    slot fmt ps ''temperature'' ''Unknown'' = Inr temperature \<and>
    slot fmt ps ''temperatureUnit'' ''F'' = Inr temperatureUnit \<and>
    slot fmt ps ''windSpeed'' ''Unknown'' = Inr windSpeed \<and>
    slot fmt ps ''windDirection'' [] = Inr windDirection \<and>
    slot fmt ps ''shortForecast'' ''No forecast available'' = Inr shortForecast \<longrightarrow>
      format_period fmt (JObj ps) =
        Inr (join ''\<newline>''
          [name @ '':'',
           ''Temperature: '' @ temperature @ degree_sign @ temperatureUnit,
           ''Wind: '' @ windSpeed @ '' '' @ windDirection,
           shortForecast,
           ''---''])) \<and>
   (map_of ps ''temperature'' = Some (JNum 0) \<longrightarrow>
      slot fmt ps ''temperature'' ''Unknown'' = Inr ''Unknown'') \<and>
   (map_of ps ''name'' = Some (JStr []) \<longrightarrow> slot fmt ps ''name'' ''Unknown'' = Inr ''Unknown'') \<and>
   (map_of ps ''windSpeed'' = Some (JStr []) \<longrightarrow>
      slot fmt ps ''windSpeed'' ''Unknown'' = Inr ''Unknown'') \<and>
   (map_of ps ''temperatureUnit'' = Some (JStr []) \<longrightarrow>
      slot fmt ps ''temperatureUnit'' ''F'' = Inr ''F'') \<and>
   (map_of ps ''shortForecast'' = Some (JStr []) \<longrightarrow>
      slot fmt ps ''shortForecast'' ''No forecast available'' = Inr ''No forecast available'') \<and>
   (map_of ps k = Some v \<and> \<not> truthy v \<longrightarrow> slot fmt ps k d = Inr d)"
  by (simp add: format_period_object slot_falsy own_prop_def)

theorem falsy_period_fields_render_defaults_witness:
  "map_of falsy_period ''name'' = Some (JStr []) \<and>
   map_of falsy_period ''temperature'' = Some (JNum 0) \<and>
   map_of falsy_period ''temperatureUnit'' = Some (JStr []) \<and>
   map_of falsy_period ''windSpeed'' = Some (JStr []) \<and>
   map_of falsy_period ''shortForecast'' = Some (JStr []) \<and>
   \<not> truthy (JNum 0) \<and>
   slot sample_fmt falsy_period ''name'' ''Unknown'' = Inr ''Unknown'' \<and>
   slot sample_fmt falsy_period ''temperature'' ''Unknown'' = Inr ''Unknown'' \<and>
   slot sample_fmt falsy_period ''temperatureUnit'' ''F'' = Inr ''F'' \<and>
   slot sample_fmt falsy_period ''windSpeed'' ''Unknown'' = Inr ''Unknown'' \<and>
   slot sample_fmt falsy_period ''windDirection'' [] = Inr ''NW'' \<and>
   slot sample_fmt falsy_period ''shortForecast'' ''No forecast available''
     = Inr ''No forecast available'' \<and>
   format_period sample_fmt (JObj falsy_period) =
     Inr (''Unknown:\<newline>Temperature: Unknown'' @ degree_sign
          @ ''F\<newline>Wind: Unknown NW\<newline>No forecast available\<newline>---'')"
  using falsy_period_fields_render_defaults [of sample_fmt falsy_period
     "''Unknown''" "''Unknown''" "''F''" "''Unknown''" "''NW''" "''No forecast available''"
     "''temperature''" "JNum 0" "''Unknown''"]
  by (simp add: falsy_period_def slot_def tmpl_or_def or_else_def own_prop_def)

text \<open>
  C5. When the grid-point lookup returns \<open>null\<close>, the forecast handler returns the
  message with the requested latitude and longitude and the words "only US locations
  are supported", as the \<open>forecast\<close> field of the structured form and, serialised, as
  the output text; the only fetch of the call is the one of the grid point, so the
  forecast URL is not fetched. The numbers appear in the text as they print, given that
  the printing of a number that is not an integer has no character JSON escapes.
\<close>

theorem grid_point_failure_short_circuits:
  assumes "fst (makeNWSRequest fmt net
             (JStr (NWS_API_BASE @ ''/points/'' @ fixed4 latitude @ '','' @ fixed4 longitude)))
           = Inr JNull"
    and "\<forall>r. plain (fmt r)"
  shows \<open>fst (get_forecast fmt fixed4 net latitude longitude) =
     Inr \<lparr>content = [TextContent
             (''{"forecast":"Failed to retrieve grid point data for coordinates: ''
              @ number_to_string fmt latitude @ '', '' @ number_to_string fmt longitude
              @ ''. This location may not be supported by the NWS API (only US locations are supported)."}'')],
          structuredContent = JObj [(''forecast'', JStr
             (''Failed to retrieve grid point data for coordinates: ''
              @ number_to_string fmt latitude @ '', '' @ number_to_string fmt longitude
              @ ''. This location may not be supported by the NWS API (only US locations are supported).''))]\<rparr>
   \<and> filter is_fetch (snd (get_forecast fmt fixed4 net latitude longitude)) =
       [Fetch (NWS_API_BASE @ ''/points/'' @ fixed4 latitude @ '','' @ fixed4 longitude)
          [(''User-Agent'', USER_AGENT), (''Accept'', ''application/geo+json'')]]\<close>
proof -
  let ?url = "NWS_API_BASE @ ''/points/'' @ fixed4 latitude @ '','' @ fixed4 longitude"
  let ?msg = "''Failed to retrieve grid point data for coordinates: ''
              @ number_to_string fmt latitude @ '', '' @ number_to_string fmt longitude
              @ ''. This location may not be supported by the NWS API (only US locations are supported).''"
  obtain evs where req: "makeNWSRequest fmt net (JStr ?url) = (Inr JNull, evs)"
    using assms(1) by (cases "makeNWSRequest fmt net (JStr ?url)") simp
  have evs: "filter is_fetch evs =
       [Fetch ?url [(''User-Agent'', USER_AGENT), (''Accept'', ''application/geo+json'')]]"
    using makeNWSRequest_fetches [of fmt net ?url] req by simp
  have "plain ?msg"
    using assms(2) by (intro grid_point_message_plain plain_number)
  then have q: "json_quote ?msg = CHR 0x22 # ?msg @ [CHR 0x22]"
    by (rule json_quote_plain)
  have fq: "json_quote ''forecast'' = CHR 0x22 # ''forecast'' @ [CHR 0x22]"
    by (simp add: json_quote_def json_escape_def)
  have run: "get_forecast fmt fixed4 net latitude longitude =
     (Inr (tool_result (json_stringify fmt (JObj [(''forecast'', JStr ?msg)]))
             (JObj [(''forecast'', JStr ?msg)])), evs)"
    using req by (simp add: get_forecast_def Let_def)
  have ser: "json_stringify fmt (JObj [(''forecast'', JStr ?msg)]) =
      ''{'' @ json_quote ''forecast'' @ '':'' @ json_quote ?msg @ ''}''"
    by (simp add: json_stringify_def)
  show ?thesis
    unfolding run ser q fq using evs by (simp add: tool_result_def)
qed

theorem grid_point_failure_short_circuits_witness:
  \<open>fst (makeNWSRequest sample_fmt net_not_found
      (JStr (NWS_API_BASE @ ''/points/'' @ sample_fixed4 49 @ '','' @ sample_fixed4 2)))
      = Inr JNull \<and>
   (\<forall>r. plain (sample_fmt r)) \<and>
   fst (get_forecast sample_fmt sample_fixed4 net_not_found 49 2) =
     Inr \<lparr>content = [TextContent ''{"forecast":"Failed to retrieve grid point data for coordinates: 49, 2. This location may not be supported by the NWS API (only US locations are supported)."}''],
          structuredContent = JObj [(''forecast'', JStr ''Failed to retrieve grid point data for coordinates: 49, 2. This location may not be supported by the NWS API (only US locations are supported).'')]\<rparr> \<and>
   filter is_fetch (snd (get_forecast sample_fmt sample_fixed4 net_not_found 49 2)) =
     [Fetch ''https://api.weather.gov/points/49.0000,2.0000''
        [(''User-Agent'', ''weather-app/1.0''), (''Accept'', ''application/geo+json'')]]\<close>
proof -
  have h1: "fst (makeNWSRequest sample_fmt net_not_found
      (JStr (NWS_API_BASE @ ''/points/'' @ sample_fixed4 49 @ '','' @ sample_fixed4 2)))
      = Inr JNull"
    by (simp add: makeNWSRequest_def nws_try_def net_not_found_def response_ok_def)
  have h2: "\<forall>r. plain (sample_fmt r)"
    by (simp add: plain_def sample_fmt_def json_escape_def)
  have u: "NWS_API_BASE @ ''/points/'' @ sample_fixed4 49 @ '','' @ sample_fixed4 2
      = ''https://api.weather.gov/points/49.0000,2.0000''"
    by (simp add: sample_fixed4_def int_str_def digits.simps NWS_API_BASE_def)
  have n: "number_to_string sample_fmt 49 = ''49''" "number_to_string sample_fmt 2 = ''2''"
    by (simp_all add: number_to_string_def int_str_def digits.simps)
  note run = grid_point_failure_short_circuits [OF h1 h2, unfolded u n]
  show ?thesis
    using run h1 h2 by (simp add: USER_AGENT_def)
qed

subsection \<open>The identity tool\<close>

text \<open>
  C2. The claim: a call without an authorization credential gets exactly
  \<^verbatim>\<open>{authenticated: false, message: "No authentication headers found"}\<close>. What the code
  does: it gives that result only when the request has no header map at all. With a
  header map that has no \<open>authorization\<close> entry, reading the token throws a TypeError
  inside the \<^verbatim>\<open>try\<close> block and the handler returns the consent message of the
  \<^verbatim>\<open>catch\<close> block; no exchange and no fetch is made. The last conjunct is the call
  without a header map.
\<close>

theorem current_user_without_authorization_header:
  "get_current_user fmt env exchange graph
     (Some \<lparr>requestInfo = Some \<lparr>headers = Some [''content-type'' \<mapsto> HStr ''application/json'']\<rparr>\<rparr>)
   = (Inr (tool_result
        (json_stringify2 fmt (JObj [(''authenticated'', JBool False),
                                    (''message'', JStr (consent_message env))]))
        (JObj [(''authenticated'', JBool False), (''message'', JStr (consent_message env))])),
      [ConsoleError ''Error during token exchange and Graph API call:''])
   \<and> consent_message env \<noteq> ''No authentication headers found''
   \<and> get_current_user fmt env exchange graph (Some \<lparr>requestInfo = Some \<lparr>headers = None\<rparr>\<rparr>)
   = (Inr (tool_result
        (json_stringify2 fmt (JObj [(''authenticated'', JBool False),
                                    (''message'', JStr ''No authentication headers found'')]))
        (JObj [(''authenticated'', JBool False),
               (''message'', JStr ''No authentication headers found'')])), [])"
proof -
  have "consent_message env \<noteq> ''No authentication headers found''"
    by (simp add: consent_message_def)
  then show ?thesis
    by (simp add: get_current_user_def extra_headers_def current_user_try_def auth_token_def
          Let_def)
qed

lemma map_of_set_prop: "map_of (set_prop k v ps) = (map_of ps)(k \<mapsto> v)"
  by (induction ps) (auto simp: fun_eq_iff)

lemma own_prop_set_prop:
  "own_prop (set_prop k v ps) k' = (if k' = k then v else own_prop ps k')"
  by (simp add: own_prop_def map_of_set_prop)

lemma keys_set_prop: "k \<in> fst ` set ps \<Longrightarrow> map fst (set_prop k v ps) = map fst ps"
  by (induction ps) auto

lemma truthy_own_prop_key:
  assumes "truthy (own_prop ps k)"
  shows "k \<in> fst ` set ps"
  using assms
proof (cases "map_of ps k")
  case None
  then show ?thesis using assms by (simp add: own_prop_def)
next
  case (Some v)
  then have "(k, v) \<in> set ps" by (rule map_of_SomeD)
  then show ?thesis by force
qed

lemma mapE_const: "mapE (\<lambda>_. Inr c) xs = Inr (replicate (length xs) c)"
  by (induction xs) (simp_all add: mapE_def)

lemma mask_user_spec:
  assumes "mask_user g = Inr u"
  shows "\<exists>ms. u = JObj ms \<and> map fst ms = map fst (spread g) \<and>
     (\<forall>k. k \<noteq> ''id'' \<and> k \<noteq> ''businessPhones'' \<longrightarrow> own_prop ms k = own_prop (spread g) k) \<and>
     own_prop ms ''id'' =
       (if truthy (own_prop (spread g) ''id'') then JStr MASKED else own_prop (spread g) ''id'') \<and>
     (truthy (own_prop (spread g) ''businessPhones'') \<longrightarrow>
        (\<exists>xs. own_prop (spread g) ''businessPhones'' = JArr xs \<and>
              own_prop ms ''businessPhones'' = JArr (replicate (length xs) (JStr MASKED)))) \<and>
     (\<not> truthy (own_prop (spread g) ''businessPhones'') \<longrightarrow>
        own_prop ms ''businessPhones'' = own_prop (spread g) ''businessPhones'')"
proof -
  let ?ps = "spread g"
  let ?ph = "own_prop ?ps ''businessPhones''"
  show ?thesis
  proof (cases "truthy ?ph")
    case False
    then have u: "u = JObj (if truthy (own_prop ?ps ''id'') then set_prop ''id'' (JStr MASKED) ?ps else ?ps)"
      using assms by (simp add: mask_user_def Let_def bindE_def)
    show ?thesis
      using False by (auto simp: u own_prop_set_prop keys_set_prop truthy_own_prop_key)
  next
    case True
    then obtain xs where xs: "?ph = JArr xs"
      using assms by (cases ?ph) (auto simp: mask_user_def Let_def bindE_def)
    let ?m1 = "set_prop ''businessPhones'' (JArr (replicate (length xs) (JStr MASKED))) ?ps"
    have u: "u = JObj (if truthy (own_prop ?m1 ''id'') then set_prop ''id'' (JStr MASKED) ?m1 else ?m1)"
      using assms True xs by (simp add: mask_user_def Let_def bindE_def mapE_const)
    have id1: "own_prop ?m1 ''id'' = own_prop ?ps ''id''"
      by (simp add: own_prop_set_prop)
    have k1: "map fst ?m1 = map fst ?ps"
      using True by (simp add: keys_set_prop truthy_own_prop_key)
    show ?thesis
      using True xs k1
      by (auto simp: u id1 own_prop_set_prop keys_set_prop truthy_own_prop_key)
  qed
qed

lemma mask_user_cases:
  assumes "mask_user g = Inr u"
  obtains ms where "u = JObj ms"
    and "map fst ms = map fst (spread g)"
    and "\<forall>k. k \<noteq> ''id'' \<and> k \<noteq> ''businessPhones'' \<longrightarrow> own_prop ms k = own_prop (spread g) k"
    and "own_prop ms ''id'' =
       (if truthy (own_prop (spread g) ''id'') then JStr MASKED else own_prop (spread g) ''id'')"
    and "truthy (own_prop (spread g) ''businessPhones'') \<longrightarrow>
        (\<exists>xs. own_prop (spread g) ''businessPhones'' = JArr xs \<and>
              own_prop ms ''businessPhones'' = JArr (replicate (length xs) (JStr MASKED)))"
    and "\<not> truthy (own_prop (spread g) ''businessPhones'') \<longrightarrow>
        own_prop ms ''businessPhones'' = own_prop (spread g) ''businessPhones''"
  using mask_user_spec [OF assms] by (elim exE conjE) (rule that)

lemma current_user_try_success:
  assumes "current_user_try fmt env exchange graph hs = (Inr e, evs)"
  shows "\<exists>authorization status graphData u.
     graph authorization = Responded status (Some graphData) \<and>
     mask_user graphData = Inr u \<and>
     evs = [TokenExchange, GraphFetch authorization] \<and>
     e = tool_result
           (json_stringify2 fmt (JObj [(''authenticated'', JBool True), (''user'', u),
              (''message'', JStr ''Successfully retrieved user information from Microsoft Graph'')]))
           (JObj [(''authenticated'', JBool True), (''user'', u),
              (''message'', JStr ''Successfully retrieved user information from Microsoft Graph'')])"
proof -
  obtain tok where tok: "auth_token hs = Inr tok"
    using assms by (cases "auth_token hs") (simp_all add: current_user_try_def)
  let ?req = "\<lparr>managedIdentityClientId = env ''OVERRIDE_USE_MI_FIC_ASSERTION_CLIENTID'',
                assertionScope = (case env ''TokenExchangeAudience'' of
                    None \<Rightarrow> ''api://AzureADTokenExchange'' | Some a \<Rightarrow> a) @ ''/.default'',
                tenantId = env ''WEBSITE_AUTH_AAD_ALLOWED_TENANTS'',
                clientId = env ''WEBSITE_AUTH_CLIENT_ID'',
                userAssertionToken = tok\<rparr>"
  obtain token where token: "exchange ?req = Inr token"
    using assms tok by (cases "exchange ?req") (simp_all add: current_user_try_def Let_def)
  let ?auth = "''Bearer '' @ undefined_or token"
  obtain status graphData where g: "graph ?auth = Responded status (Some graphData)"
    using assms tok token
    by (cases "graph ?auth")
       (auto simp: current_user_try_def Let_def split: option.splits)
  have run: "current_user_try fmt env exchange graph hs =
      (bindE (mask_user graphData) (\<lambda>maskedUserData.
         let output = JObj
               [(''authenticated'', JBool True),
                (''user'', maskedUserData),
                (''message'', JStr
                   ''Successfully retrieved user information from Microsoft Graph'')]
         in Inr (tool_result (json_stringify2 fmt output) output)),
       [TokenExchange, GraphFetch ?auth])"
    using tok token g by (simp add: current_user_try_def Let_def)
  obtain u where u: "mask_user graphData = Inr u"
    using assms unfolding run by (cases "mask_user graphData") (simp_all add: bindE_def)
  have "evs = [TokenExchange, GraphFetch ?auth]"
    using assms unfolding run by simp
  moreover have "e = tool_result
           (json_stringify2 fmt (JObj [(''authenticated'', JBool True), (''user'', u),
              (''message'', JStr ''Successfully retrieved user information from Microsoft Graph'')]))
           (JObj [(''authenticated'', JBool True), (''user'', u),
              (''message'', JStr ''Successfully retrieved user information from Microsoft Graph'')])"
    using assms unfolding run by (simp add: u bindE_def Let_def)
  ultimately show ?thesis using g u by blast
qed

lemma current_user_try_cases:
  assumes "current_user_try fmt env exchange graph hs = (Inr e, evs)"
  obtains authorization status graphData u where
    "graph authorization = Responded status (Some graphData)"
    and "mask_user graphData = Inr u"
    and "evs = [TokenExchange, GraphFetch authorization]"
    and "e = tool_result
           (json_stringify2 fmt (JObj [(''authenticated'', JBool True), (''user'', u),
              (''message'', JStr ''Successfully retrieved user information from Microsoft Graph'')]))
           (JObj [(''authenticated'', JBool True), (''user'', u),
              (''message'', JStr ''Successfully retrieved user information from Microsoft Graph'')])"
  using current_user_try_success [OF assms] by (elim exE conjE) (rule that)

lemma get_current_user_success:
  assumes "get_current_user fmt env exchange graph extra = (Inr e, evs)"
    and "get_prop (structuredContent e) ''authenticated'' = Inr (JBool True)"
  shows "\<exists>hs. current_user_try fmt env exchange graph hs = (Inr e, evs)"
proof (cases "extra_headers extra")
  case None
  then show ?thesis
    using assms by (auto simp: get_current_user_def Let_def tool_result_def own_prop_def)
next
  case (Some hs)
  show ?thesis
  proof (cases "current_user_try fmt env exchange graph hs")
    case (Pair r evs')
    show ?thesis
    proof (cases r)
      case (Inl err)
      then show ?thesis
        using assms Some Pair
        by (auto simp: get_current_user_def Let_def tool_result_def own_prop_def)
    next
      case (Inr res)
      then show ?thesis
        using assms Some Pair by (auto simp: get_current_user_def)
    qed
  qed
qed

lemma signed_in_run:
  "get_current_user sample_fmt no_env exchange_ok graph_profile signed_in =
     (Inr signed_in_result, [TokenExchange, GraphFetch ''Bearer graph-token''])"
  by (simp add: get_current_user_def extra_headers_def signed_in_def current_user_try_def
        auth_token_def exchange_ok_def graph_profile_def undefined_or_def Let_def bindE_def
        mask_user_def own_prop_def MASKED_def signed_in_result_def signed_in_output_def
        mapE_def)

text \<open>
  C3, as the code has it. For every call that ends with \<open>authenticated: true\<close>, the
  \<open>user\<close> of the envelope has the properties of the downstream profile, in the same
  order, where: every element of a \<open>businessPhones\<close> list is "[MASKED]"; \<open>id\<close> is
  "[MASKED]" when the profile's \<open>id\<close> is truthy, and is the profile's own value when
  it is falsy; every other property is the profile's, unchanged. The output text is
  the serialisation of that envelope.
\<close>

theorem successful_exchange_masks_profile:
  assumes "get_current_user fmt env exchange graph extra = (Inr e, evs)"
    and "get_prop (structuredContent e) ''authenticated'' = Inr (JBool True)"
  shows "\<exists>authorization status graphData ms.
     graph authorization = Responded status (Some graphData) \<and>
     e = tool_result
           (json_stringify2 fmt (JObj [(''authenticated'', JBool True), (''user'', JObj ms),
              (''message'', JStr ''Successfully retrieved user information from Microsoft Graph'')]))
           (JObj [(''authenticated'', JBool True), (''user'', JObj ms),
              (''message'', JStr ''Successfully retrieved user information from Microsoft Graph'')]) \<and>
     map fst ms = map fst (spread graphData) \<and>
     (\<forall>k. k \<noteq> ''id'' \<and> k \<noteq> ''businessPhones'' \<longrightarrow>
          own_prop ms k = own_prop (spread graphData) k) \<and>
     own_prop ms ''id'' =
       (if truthy (own_prop (spread graphData) ''id'') then JStr MASKED
        else own_prop (spread graphData) ''id'') \<and>
     (truthy (own_prop (spread graphData) ''businessPhones'') \<longrightarrow>
        (\<exists>xs. own_prop (spread graphData) ''businessPhones'' = JArr xs \<and>
              own_prop ms ''businessPhones'' = JArr (replicate (length xs) (JStr MASKED)))) \<and>
     (\<not> truthy (own_prop (spread graphData) ''businessPhones'') \<longrightarrow>
        own_prop ms ''businessPhones'' = own_prop (spread graphData) ''businessPhones'')"
proof -
  from get_current_user_success [OF assms] obtain hs
    where "current_user_try fmt env exchange graph hs = (Inr e, evs)" ..
  then obtain authorization status graphData u where
    g: "graph authorization = Responded status (Some graphData)"
    and m: "mask_user graphData = Inr u"
    and e: "e = tool_result
           (json_stringify2 fmt (JObj [(''authenticated'', JBool True), (''user'', u),
              (''message'', JStr ''Successfully retrieved user information from Microsoft Graph'')]))
           (JObj [(''authenticated'', JBool True), (''user'', u),
              (''message'', JStr ''Successfully retrieved user information from Microsoft Graph'')])"
    by (rule current_user_try_cases)
  from m obtain ms where u: "u = JObj ms"
    and keys: "map fst ms = map fst (spread graphData)"
    and others: "\<forall>k. k \<noteq> ''id'' \<and> k \<noteq> ''businessPhones'' \<longrightarrow>
          own_prop ms k = own_prop (spread graphData) k"
    and ident: "own_prop ms ''id'' =
       (if truthy (own_prop (spread graphData) ''id'') then JStr MASKED
        else own_prop (spread graphData) ''id'')"
    and phones: "truthy (own_prop (spread graphData) ''businessPhones'') \<longrightarrow>
        (\<exists>xs. own_prop (spread graphData) ''businessPhones'' = JArr xs \<and>
              own_prop ms ''businessPhones'' = JArr (replicate (length xs) (JStr MASKED)))"
    and nophones: "\<not> truthy (own_prop (spread graphData) ''businessPhones'') \<longrightarrow>
        own_prop ms ''businessPhones'' = own_prop (spread graphData) ''businessPhones''"
    by (rule mask_user_cases)
  note e' = e [unfolded u]
  show ?thesis
    apply (rule exI [of _ authorization])
    apply (rule exI [of _ status])
    apply (rule exI [of _ graphData])
    apply (rule exI [of _ ms])
    apply (intro conjI)
          apply (fact g)
         apply (fact e')
        apply (fact keys)
       apply (fact others)
      apply (fact ident)
     apply (fact phones)
    apply (fact nophones)
    done
qed

theorem successful_exchange_masks_profile_witness:
  "get_current_user sample_fmt no_env exchange_ok graph_profile signed_in =
     (Inr signed_in_result, [TokenExchange, GraphFetch ''Bearer graph-token'']) \<and>
   get_prop (structuredContent signed_in_result) ''authenticated'' = Inr (JBool True) \<and>
   (\<exists>authorization status graphData ms.
     graph_profile authorization = Responded status (Some graphData) \<and>
     signed_in_result = tool_result
           (json_stringify2 sample_fmt (JObj [(''authenticated'', JBool True), (''user'', JObj ms),
              (''message'', JStr ''Successfully retrieved user information from Microsoft Graph'')]))
           (JObj [(''authenticated'', JBool True), (''user'', JObj ms),
              (''message'', JStr ''Successfully retrieved user information from Microsoft Graph'')]) \<and>
     map fst ms = map fst (spread graphData) \<and>
     (\<forall>k. k \<noteq> ''id'' \<and> k \<noteq> ''businessPhones'' \<longrightarrow>
          own_prop ms k = own_prop (spread graphData) k) \<and>
     own_prop ms ''id'' =
       (if truthy (own_prop (spread graphData) ''id'') then JStr MASKED
        else own_prop (spread graphData) ''id'') \<and>
     (truthy (own_prop (spread graphData) ''businessPhones'') \<longrightarrow>
        (\<exists>xs. own_prop (spread graphData) ''businessPhones'' = JArr xs \<and>
              own_prop ms ''businessPhones'' = JArr (replicate (length xs) (JStr MASKED)))) \<and>
     (\<not> truthy (own_prop (spread graphData) ''businessPhones'') \<longrightarrow>
        own_prop ms ''businessPhones'' = own_prop (spread graphData) ''businessPhones''))"
proof -
  have h2: "get_prop (structuredContent signed_in_result) ''authenticated'' = Inr (JBool True)"
    by (simp add: signed_in_result_def signed_in_output_def tool_result_def own_prop_def)
  show ?thesis
    by (intro conjI signed_in_run h2 successful_exchange_masks_profile [OF signed_in_run h2])
qed

text \<open>
  The claim as written fails: on a profile whose \<open>id\<close> is 0 and whose mobile number is
  also its business number, the envelope carries the \<open>id\<close> as it came and the number
  under \<open>mobilePhone\<close>.
\<close>

theorem masked_profile_counterexample:
  "map_sum id structuredContent
     (fst (get_current_user sample_fmt no_env exchange_ok graph_profile_unmasked signed_in)) =
   Inr (JObj [(''authenticated'', JBool True),
              (''user'', JObj
                 [(''businessPhones'', JArr [JStr ''[MASKED]'']),
                  (''mobilePhone'', JStr ''+1 555 0100''),
                  (''id'', JNum 0)]),
              (''message'', JStr ''Successfully retrieved user information from Microsoft Graph'')])"
  by (simp add: get_current_user_def extra_headers_def signed_in_def current_user_try_def
        auth_token_def exchange_ok_def graph_profile_unmasked_def undefined_or_def Let_def
        bindE_def mask_user_def own_prop_def MASKED_def tool_result_def mapE_def)

end
